theory Spec2Isabelle
  imports Complex_Main
begin

section \<open>JavaScript numbers\<close>

text \<open>
  A JavaScript number is a real number or one of the three non-finite values
  \<open>Infinity\<close>, \<open>-Infinity\<close> and \<open>NaN\<close>. The operations of this section are exact on
  finite values; the section on rounded arithmetic below gives the operations that
  round each finite result as binary64 does, and \<open>update\<close> is given with both. The
  sign of zero is not modelled (the one zero behaves as \<open>+0\<close>). The non-finite values
  follow the language: \<open>NaN\<close> propagates through every operation, every comparison
  with \<open>NaN\<close> is false, \<open>0 / 0\<close> is \<open>NaN\<close> and \<open>a / 0\<close> is an infinity for \<open>a \<noteq> 0\<close>.
  No operation raises.
\<close>

datatype jsnum = Fin real | PInf | NInf | NaN

text \<open>The infinity with the sign of \<open>r\<close>; \<open>NaN\<close> for \<open>r = 0\<close> (as in \<open>0 * Infinity\<close>).\<close>

definition signed_inf :: "real \<Rightarrow> jsnum" where
  "signed_inf r = (if r = 0 then NaN else if 0 < r then PInf else NInf)"

fun jneg :: "jsnum \<Rightarrow> jsnum" where
  "jneg (Fin a) = Fin (- a)"
| "jneg PInf = NInf"
| "jneg NInf = PInf"
| "jneg NaN = NaN"

fun jadd :: "jsnum \<Rightarrow> jsnum \<Rightarrow> jsnum" where
  "jadd NaN _ = NaN"
| "jadd _ NaN = NaN"
| "jadd (Fin a) (Fin b) = Fin (a + b)"
| "jadd (Fin a) PInf = PInf"
| "jadd (Fin a) NInf = NInf"
| "jadd PInf (Fin b) = PInf"
| "jadd NInf (Fin b) = NInf"
| "jadd PInf PInf = PInf"
| "jadd NInf NInf = NInf"
| "jadd PInf NInf = NaN"
| "jadd NInf PInf = NaN"

definition jsub :: "jsnum \<Rightarrow> jsnum \<Rightarrow> jsnum" where
  "jsub a b = jadd a (jneg b)"

fun jmul :: "jsnum \<Rightarrow> jsnum \<Rightarrow> jsnum" where
  "jmul NaN _ = NaN"
| "jmul _ NaN = NaN"
| "jmul (Fin a) (Fin b) = Fin (a * b)"
| "jmul (Fin a) PInf = signed_inf a"
| "jmul (Fin a) NInf = signed_inf (- a)"
| "jmul PInf (Fin b) = signed_inf b"
| "jmul NInf (Fin b) = signed_inf (- b)"
| "jmul PInf PInf = PInf"
| "jmul NInf NInf = PInf"
| "jmul PInf NInf = NInf"
| "jmul NInf PInf = NInf"

fun jdiv :: "jsnum \<Rightarrow> jsnum \<Rightarrow> jsnum" where
  "jdiv NaN _ = NaN"
| "jdiv _ NaN = NaN"
| "jdiv (Fin a) (Fin b) = (if b = 0 then signed_inf a else Fin (a / b))"
| "jdiv (Fin a) PInf = Fin 0"
| "jdiv (Fin a) NInf = Fin 0"
| "jdiv PInf (Fin b) = (if 0 \<le> b then PInf else NInf)"
| "jdiv NInf (Fin b) = (if 0 \<le> b then NInf else PInf)"
| "jdiv PInf PInf = NaN"
| "jdiv NInf NInf = NaN"
| "jdiv PInf NInf = NaN"
| "jdiv NInf PInf = NaN"

text \<open>\<open>Math.sqrt\<close>.\<close>

fun math_sqrt :: "jsnum \<Rightarrow> jsnum" where
  "math_sqrt (Fin a) = (if a < 0 then NaN else Fin (sqrt a))"
| "math_sqrt PInf = PInf"
| "math_sqrt NInf = NaN"
| "math_sqrt NaN = NaN"

text \<open>The comparison \<open>a < b\<close>; \<open>a > b\<close> is \<open>b < a\<close>, \<open>a >= b\<close> is \<open>b <= a\<close>.\<close>

fun jlt :: "jsnum \<Rightarrow> jsnum \<Rightarrow> bool" where
  "jlt NaN _ = False"
| "jlt _ NaN = False"
| "jlt (Fin a) (Fin b) = (a < b)"
| "jlt (Fin a) PInf = True"
| "jlt (Fin a) NInf = False"
| "jlt PInf _ = False"
| "jlt NInf (Fin b) = True"
| "jlt NInf PInf = True"
| "jlt NInf NInf = False"

definition jgt :: "jsnum \<Rightarrow> jsnum \<Rightarrow> bool" where
  "jgt a b = jlt b a"

fun jle :: "jsnum \<Rightarrow> jsnum \<Rightarrow> bool" where
  "jle NaN _ = False"
| "jle _ NaN = False"
| "jle a b = (\<not> jlt b a)"

definition jge :: "jsnum \<Rightarrow> jsnum \<Rightarrow> bool" where
  "jge a b = jle b a"

text \<open>\<open>Math.min\<close> and \<open>Math.max\<close> of two arguments: \<open>NaN\<close> if either is \<open>NaN\<close>.\<close>

fun math_min :: "jsnum \<Rightarrow> jsnum \<Rightarrow> jsnum" where
  "math_min NaN _ = NaN"
| "math_min _ NaN = NaN"
| "math_min a b = (if jlt b a then b else a)"

fun math_max :: "jsnum \<Rightarrow> jsnum \<Rightarrow> jsnum" where
  "math_max NaN _ = NaN"
| "math_max _ NaN = NaN"
| "math_max a b = (if jlt a b then b else a)"


section \<open>The particle system\<close>

text \<open>
  The canvas element: \<open>width\<close> and \<open>height\<close> are unsigned integers in the DOM.
  Every particle holds a reference to the one canvas of the field, which the resize
  handler mutates; the model passes the current canvas to \<open>update\<close>.
\<close>

record canvas =
  width :: nat
  height :: nat

text \<open>
  The fields of \<open>class Particle\<close> (\<open>x\<close>, \<open>y\<close>, \<open>size\<close>, \<open>speedX\<close>, \<open>speedY\<close>,
  \<open>opacity\<close>), prefixed with \<open>p_\<close>.
\<close>

record particle =
  p_x :: jsnum
  p_y :: jsnum
  p_size :: jsnum
  p_speedX :: jsnum
  p_speedY :: jsnum
  p_opacity :: jsnum

text \<open>The object \<open>mouse = { x: null, y: null }\<close>: \<open>None\<close> is \<open>null\<close>.\<close>

record mouse =
  m_x :: "jsnum option"
  m_y :: "jsnum option"

text \<open>\<open>Particle.update(mouse)\<close>, statement by statement, in exact arithmetic.\<close>

definition update :: "canvas \<Rightarrow> mouse \<Rightarrow> particle \<Rightarrow> particle" where
  "update cv ms p =
    (let x1 = jadd (p_x p) (p_speedX p);
         y1 = jadd (p_y p) (p_speedY p);
         (x2, y2) =
           (case (m_x ms, m_y ms) of
              (Some mx, Some my) \<Rightarrow>
                (let dx = jsub x1 mx;
                     dy = jsub y1 my;
                     dist = math_sqrt (jadd (jmul dx dx) (jmul dy dy))
                 in if jlt dist (Fin 120)
                    then (let force = jdiv (jsub (Fin 120) dist) (Fin 120)
                          in (jadd x1 (jmul (jmul (jdiv dx dist) force) (Fin 2)),
                              jadd y1 (jmul (jmul (jdiv dy dist) force) (Fin 2))))
                    else (x1, y1))
            | _ \<Rightarrow> (x1, y1));
         sx = (if jlt x2 (Fin 0) \<or> jgt x2 (Fin (real (width cv)))
               then jmul (p_speedX p) (Fin (- 1)) else p_speedX p);
         sy = (if jlt y2 (Fin 0) \<or> jgt y2 (Fin (real (height cv)))
               then jmul (p_speedY p) (Fin (- 1)) else p_speedY p);
         x3 = math_max (Fin 0) (math_min (Fin (real (width cv))) x2);
         y3 = math_max (Fin 0) (math_min (Fin (real (height cv))) y2)
     in p\<lparr>p_x := x3, p_y := y3, p_speedX := sx, p_speedY := sy\<rparr>)"


text \<open>
  The Euclidean distance as the source computes it, in \<open>update\<close> (particle to pointer)
  and in \<open>animate\<close> (particle to particle):
  \<open>Math.sqrt(dx * dx + dy * dy)\<close> with \<open>dx = ax - bx\<close>, \<open>dy = ay - by\<close>.
\<close>

definition point_dist :: "jsnum \<Rightarrow> jsnum \<Rightarrow> jsnum \<Rightarrow> jsnum \<Rightarrow> jsnum" where
  "point_dist ax ay bx by =
    (let dx = jsub ax bx; dy = jsub ay by
     in math_sqrt (jadd (jmul dx dx) (jmul dy dy)))"




text \<open>The pointer when it has left the canvas.\<close>

definition mouse_absent :: mouse where
  "mouse_absent = \<lparr>m_x = None, m_y = None\<rparr>"

text \<open>Concrete inputs used below: an 800 by 600 canvas.\<close>

definition canvas_800_600 :: canvas where
  "canvas_800_600 = \<lparr>width = 800, height = 600\<rparr>"


section \<open>Rounded arithmetic\<close>

text \<open>
  The source computes in IEEE-754 binary64: an addition, subtraction, multiplication,
  division or square root of finite numbers returns the exact real result rounded to a
  double, or an infinity when it overflows. The function \<open>fl\<close> stands for that
  rounding of a real result. \<open>rounding fl\<close> collects what the proofs below use of it:
  it never yields \<open>NaN\<close>, it maps zero to zero, it is monotone, and it leaves its own
  finite results unchanged. The rounding of the source, \<open>binary64\<close> below, has these
  four properties (\<open>rounding_binary64\<close>), so what is proved for every rounding holds
  for the source's arithmetic. Exact arithmetic (\<open>fl = Fin\<close>) and the coarse rounding
  \<open>round_grid\<close> below have them too. Nothing is assumed about precision: a small term
  may be absorbed by an addition and a small square may underflow to zero.
\<close>

definition rounding :: "(real \<Rightarrow> jsnum) \<Rightarrow> bool" where
  "rounding fl \<longleftrightarrow>
     (\<forall>r. fl r \<noteq> NaN) \<and>
     fl 0 = Fin 0 \<and>
     (\<forall>r s. r \<le> s \<longrightarrow> jle (fl r) (fl s)) \<and>
     (\<forall>r s. fl r = Fin s \<longrightarrow> fl s = Fin s)"

text \<open>
  The rounding of the source: to nearest, ties to even, on binary64. A real \<open>r\<close> with
  \<open>2^e <= |r| < 2^(e+1)\<close> is rounded to the nearest multiple of \<open>2^(e-52)\<close>, and to
  the even multiple at a tie; below \<open>2^(-1022)\<close>, in the subnormal range, the multiples
  are those of \<open>2^(-1074)\<close>. A result of magnitude \<open>2^1024\<close> or more is the infinity of
  that sign. \<open>rne\<close> rounds a real to the nearest integer, ties to even.
\<close>

definition rne :: "real \<Rightarrow> int" where
  "rne x =
    (let n = \<lfloor>x\<rfloor>; f = x - real_of_int n
     in if f < 1 / 2 then n else if 1 / 2 < f then n + 1 else if even n then n else n + 1)"

definition expo :: "real \<Rightarrow> int" where
  "expo r = max \<lfloor>log 2 \<bar>r\<bar>\<rfloor> (- 1022)"

definition quantum :: "real \<Rightarrow> real" where
  "quantum r = 2 powr real_of_int (expo r - 52)"

definition rounded_value :: "real \<Rightarrow> real" where
  "rounded_value r = real_of_int (rne (r / quantum r)) * quantum r"

definition binary64 :: "real \<Rightarrow> jsnum" where
  "binary64 r =
    (if 2 ^ 1024 \<le> \<bar>rounded_value r\<bar> then signed_inf r else Fin (rounded_value r))"

text \<open>
  The operators \<open>+\<close>, \<open>-\<close>, \<open>*\<close>, \<open>/\<close> and \<open>Math.sqrt\<close> with the rounding: one rounding of
  the exact result when the operands are finite, and the operation of the first
  section otherwise. Comparisons, \<open>Math.min\<close> and \<open>Math.max\<close> do not round.
\<close>

fun radd :: "(real \<Rightarrow> jsnum) \<Rightarrow> jsnum \<Rightarrow> jsnum \<Rightarrow> jsnum" where
  "radd fl (Fin a) (Fin b) = fl (a + b)"
| "radd fl a b = jadd a b"

fun rsub :: "(real \<Rightarrow> jsnum) \<Rightarrow> jsnum \<Rightarrow> jsnum \<Rightarrow> jsnum" where
  "rsub fl (Fin a) (Fin b) = fl (a - b)"
| "rsub fl a b = jsub a b"

fun rmul :: "(real \<Rightarrow> jsnum) \<Rightarrow> jsnum \<Rightarrow> jsnum \<Rightarrow> jsnum" where
  "rmul fl (Fin a) (Fin b) = fl (a * b)"
| "rmul fl a b = jmul a b"

fun rdiv :: "(real \<Rightarrow> jsnum) \<Rightarrow> jsnum \<Rightarrow> jsnum \<Rightarrow> jsnum" where
  "rdiv fl (Fin a) (Fin b) = (if b = 0 then signed_inf a else fl (a / b))"
| "rdiv fl a b = jdiv a b"

fun rsqrt :: "(real \<Rightarrow> jsnum) \<Rightarrow> jsnum \<Rightarrow> jsnum" where
  "rsqrt fl (Fin a) = (if a < 0 then NaN else fl (sqrt a))"
| "rsqrt fl a = math_sqrt a"

text \<open>
  \<open>Particle.update(mouse)\<close> once more, statement by statement, with every arithmetic
  operation rounded. The source's method is \<open>update_rounded binary64\<close>.
\<close>

definition update_rounded :: "(real \<Rightarrow> jsnum) \<Rightarrow> canvas \<Rightarrow> mouse \<Rightarrow> particle \<Rightarrow> particle" where
  "update_rounded fl cv ms p =
    (let x1 = radd fl (p_x p) (p_speedX p);
         y1 = radd fl (p_y p) (p_speedY p);
         (x2, y2) =
           (case (m_x ms, m_y ms) of
              (Some mx, Some my) \<Rightarrow>
                (let dx = rsub fl x1 mx;
                     dy = rsub fl y1 my;
                     dist = rsqrt fl (radd fl (rmul fl dx dx) (rmul fl dy dy))
                 in if jlt dist (Fin 120)
                    then (let force = rdiv fl (rsub fl (Fin 120) dist) (Fin 120)
                          in (radd fl x1 (rmul fl (rmul fl (rdiv fl dx dist) force) (Fin 2)),
                              radd fl y1 (rmul fl (rmul fl (rdiv fl dy dist) force) (Fin 2))))
                    else (x1, y1))
            | _ \<Rightarrow> (x1, y1));
         sx = (if jlt x2 (Fin 0) \<or> jgt x2 (Fin (real (width cv)))
               then rmul fl (p_speedX p) (Fin (- 1)) else p_speedX p);
         sy = (if jlt y2 (Fin 0) \<or> jgt y2 (Fin (real (height cv)))
               then rmul fl (p_speedY p) (Fin (- 1)) else p_speedY p);
         x3 = math_max (Fin 0) (math_min (Fin (real (width cv))) x2);
         y3 = math_max (Fin 0) (math_min (Fin (real (height cv))) y2)
     in p\<lparr>p_x := x3, p_y := y3, p_speedX := sx, p_speedY := sy\<rparr>)"

text \<open>
  The operands of the two divisions \<open>dx / dist\<close> and \<open>dy / dist\<close> of \<open>update\<close>, when
  the call executes them: the control flow of \<open>update\<close> up to the divisions, returning
  the values of \<open>dx\<close>, \<open>dy\<close> and \<open>dist\<close> there, and \<open>None\<close> when the branch is not
  taken.
\<close>

definition repulsion_operands ::
  "(real \<Rightarrow> jsnum) \<Rightarrow> mouse \<Rightarrow> particle \<Rightarrow> (jsnum \<times> jsnum \<times> jsnum) option" where
  "repulsion_operands fl ms p =
    (let x1 = radd fl (p_x p) (p_speedX p);
         y1 = radd fl (p_y p) (p_speedY p)
     in case (m_x ms, m_y ms) of
          (Some mx, Some my) \<Rightarrow>
            (let dx = rsub fl x1 mx;
                 dy = rsub fl y1 my;
                 dist = rsqrt fl (radd fl (rmul fl dx dx) (rmul fl dy dy))
             in if jlt dist (Fin 120) then Some (dx, dy, dist) else None)
        | _ \<Rightarrow> None)"

text \<open>
  A rounding that is not exact, for the concrete inputs below: to the nearest multiple
  of 1/256. It is far coarser than binary64 and shows the same effects at larger
  numbers: \<open>100 + 1/1024\<close> is 100, and the square of 1/32 is 0.
\<close>

definition round_grid :: "real \<Rightarrow> jsnum" where
  "round_grid r = Fin (real_of_int (round (r * 256)) / 256)"


section \<open>The particle field\<close>

text \<open>
  \<open>Particle.reset()\<close>, which the constructor calls: six calls of \<open>Math.random()\<close>, in
  the order x, y, size, speedX, speedY, opacity. \<open>Math.random\<close> is an input of the
  model: \<open>rnd k\<close> is the \<open>k\<close>-th number it returns, and the particle built here takes
  the six numbers from \<open>k\<close> on.
\<close>

definition reset :: "canvas \<Rightarrow> (nat \<Rightarrow> real) \<Rightarrow> nat \<Rightarrow> particle" where
  "reset cv rnd k =
    \<lparr>p_x = jmul (Fin (rnd k)) (Fin (real (width cv))),
     p_y = jmul (Fin (rnd (k + 1))) (Fin (real (height cv))),
     p_size = jadd (jmul (Fin (rnd (k + 2))) (Fin 2)) (Fin 0.5),
     p_speedX = jmul (jsub (Fin (rnd (k + 3))) (Fin 0.5)) (Fin 0.8),
     p_speedY = jmul (jsub (Fin (rnd (k + 4))) (Fin 0.5)) (Fin 0.8),
     p_opacity = jadd (jmul (Fin (rnd (k + 5))) (Fin 0.5)) (Fin 0.1)\<rparr>"

text \<open>
  What a frame puts on the 2D context: \<open>clearRect(x, y, w, h)\<close>; the filled circle of
  \<open>Particle.draw\<close> with centre, radius and the alpha of its fill style; and a stroked
  line from \<open>moveTo\<close> to \<open>lineTo\<close> with the alpha of its stroke style. The colour
  (0, 212, 255) and the line width 0.5 are the same for every command and are left out.
\<close>

datatype draw =
    ClearRect jsnum jsnum jsnum jsnum
  | Arc jsnum jsnum jsnum jsnum
  | Line jsnum jsnum jsnum jsnum jsnum

definition draw_particle :: "particle \<Rightarrow> draw" where
  "draw_particle p = Arc (p_x p) (p_y p) (p_size p) (p_opacity p)"

text \<open>The alpha of a connecting line: \<open>0.08 * (1 - dist / 150)\<close>.\<close>

definition line_alpha :: "jsnum \<Rightarrow> jsnum" where
  "line_alpha d = jmul (Fin 0.08) (jsub (Fin 1) (jdiv d (Fin 150)))"

text \<open>The body of the inner loop of the connections pass, for one pair of particles.\<close>

definition connect :: "particle \<Rightarrow> particle \<Rightarrow> draw list" where
  "connect p q =
    (let dx = jsub (p_x p) (p_x q);
         dy = jsub (p_y p) (p_y q);
         dist = math_sqrt (jadd (jmul dx dx) (jmul dy dy))
     in if jlt dist (Fin 150)
        then [Line (p_x p) (p_y p) (p_x q) (p_y q) (line_alpha dist)]
        else [])"

text \<open>
  The two nested loops \<open>for (i = 0; i < particles.length; i++)\<close> and
  \<open>for (j = i + 1; j < particles.length; j++)\<close>; \<open>out\<close> is what has been drawn so far.
\<close>

function conn_inner :: "particle list \<Rightarrow> nat \<Rightarrow> nat \<Rightarrow> draw list \<Rightarrow> draw list" where
  "conn_inner ps i j out =
    (if j < length ps
     then conn_inner ps i (j + 1) (out @ connect (ps ! i) (ps ! j))
     else out)"
  by pat_completeness auto
termination
  by (relation "measure (\<lambda>(ps, i, j, out). length ps - j)") auto

function conn_outer :: "particle list \<Rightarrow> nat \<Rightarrow> draw list \<Rightarrow> draw list" where
  "conn_outer ps i out =
    (if i < length ps
     then conn_outer ps (i + 1) (conn_inner ps i (i + 1) out)
     else out)"
  by pat_completeness auto
termination
  by (relation "measure (\<lambda>(ps, i, out). length ps - i)") auto

definition connections :: "particle list \<Rightarrow> draw list" where
  "connections ps = conn_outer ps 0 []"

text \<open>
  The state that \<open>initParticles\<close> closes over: the canvas, the array \<open>particles\<close> and
  the object \<open>mouse\<close>.
\<close>

record field =
  f_canvas :: canvas
  f_particles :: "particle list"
  f_mouse :: mouse

text \<open>
  One call of \<open>animate\<close>: every particle is updated and drawn, then the connections
  are drawn. The result is the new state and the drawing commands in order.
\<close>

definition animate :: "field \<Rightarrow> field \<times> draw list" where
  "animate s =
    (let ps = map (update (f_canvas s) (f_mouse s)) (f_particles s)
     in (s\<lparr>f_particles := ps\<rparr>,
         ClearRect (Fin 0) (Fin 0) (Fin (real (width (f_canvas s))))
             (Fin (real (height (f_canvas s))))
           # map draw_particle ps @ connections ps))"

text \<open>The loop \<open>for (i = 0; i < particleCount; i++) particles.push(new Particle(canvas))\<close>.\<close>

function fill_particles ::
  "canvas \<Rightarrow> (nat \<Rightarrow> real) \<Rightarrow> nat \<Rightarrow> nat \<Rightarrow> particle list \<Rightarrow> particle list" where
  "fill_particles cv rnd particleCount i particles =
    (if i < particleCount
     then fill_particles cv rnd particleCount (i + 1) (particles @ [reset cv rnd (6 * i)])
     else particles)"
  by pat_completeness auto
termination
  by (relation "measure (\<lambda>(cv, rnd, n, i, ps). n - i)") auto

text \<open>
  \<open>initParticles\<close>. \<open>found\<close> says whether the canvas element exists; \<open>innerWidth\<close> and
  \<open>innerHeight\<close> are the window's at the time of the call. The function sizes the
  canvas, fills the array and runs the first frame.
\<close>

definition initParticles :: "bool \<Rightarrow> nat \<Rightarrow> nat \<Rightarrow> (nat \<Rightarrow> real) \<Rightarrow> field option" where
  "initParticles found innerWidth innerHeight rnd =
    (if \<not> found then None
     else
       (let isMobile = innerWidth < 768;
            particleCount = (if isMobile then 40 else 80);
            cv = \<lparr>width = innerWidth, height = innerHeight\<rparr>;
            particles = fill_particles cv rnd particleCount 0 []
        in Some (fst (animate \<lparr>f_canvas = cv, f_particles = particles,
                                f_mouse = \<lparr>m_x = None, m_y = None\<rparr>\<rparr>))))"

text \<open>
  What happens after initialization: the window is resized (to the given inner width
  and height), the pointer moves over the canvas (to the given client coordinates) or
  leaves it, or the browser calls \<open>animate\<close> for the next frame.
\<close>

datatype event = Resize nat nat | MouseMove real real | MouseLeave | Frame

fun handle :: "event \<Rightarrow> field \<Rightarrow> field" where
  "handle (Resize innerWidth innerHeight) s =
     s\<lparr>f_canvas := \<lparr>width = innerWidth, height = innerHeight\<rparr>\<rparr>"
| "handle (MouseMove clientX clientY) s =
     s\<lparr>f_mouse := \<lparr>m_x = Some (Fin clientX), m_y = Some (Fin clientY)\<rparr>\<rparr>"
| "handle MouseLeave s = s\<lparr>f_mouse := \<lparr>m_x = None, m_y = None\<rparr>\<rparr>"
| "handle Frame s = fst (animate s)"

fun run :: "event list \<Rightarrow> field \<Rightarrow> field" where
  "run [] s = s"
| "run (e # es) s = run es (handle e s)"

declare fill_particles.simps [simp del]
declare conn_inner.simps [simp del]
declare conn_outer.simps [simp del]


section \<open>The 3D room\<close>

text \<open>
  The six keys of the object \<open>roomLights\<close>, the three classes of light the module
  creates, and a light with the two constructor arguments every class takes. Position,
  range and shadow settings are constants that nothing reads back and are left out.
\<close>

datatype light_name = Ambient | DeskLight | MonitorLight | LedLight | CeilingLight | FillLight

datatype light_kind = AmbientLight | PointLight | DirectionalLight

record light =
  kind :: light_kind
  color :: nat
  intensity :: jsnum

text \<open>
  The scene graph: one child for each \<open>scene.add(create...())\<close> of \<open>init3DRoom\<close>, named
  after the function that builds it. The meshes inside each group are fixed by the
  source and are not modelled further.
\<close>

datatype scene_child =
    Room | Desk | Monitor | SecondMonitor | Peripherals | Chair | Posters | Bookshelf
  | Decorations | Lighting | FloorMat | Bed | MordekaiserFigurine | HollowKnightFigurine

record scene3d =
  background :: nat
  children :: "scene_child list"

record camera3d =
  fov :: jsnum
  aspect :: jsnum

record renderer3d =
  r_width :: nat
  r_height :: nat

datatype orbit_controls = OrbitControls

record container =
  clientWidth :: nat
  clientHeight :: nat

text \<open>
  The module-level variables of \<open>room3d.js\<close>, followed by what the module has done to
  the page: the containers that received the renderer's canvas with \<open>appendChild\<close>,
  the number of resize listeners added to the window, and the numbers of animation
  frames requested and of scenes rendered. \<open>roomLights\<close> maps a key to its light, and
  to \<open>None\<close> while the key holds \<open>null\<close>.
\<close>

record room =
  scene :: "scene3d option"
  camera :: "camera3d option"
  renderer :: "renderer3d option"
  controls :: "orbit_controls option"
  animationId :: "nat option"
  isInitialized :: bool
  roomLights :: "light_name \<Rightarrow> light option"
  lightsOn :: bool
  appended :: "container list"
  resizeListeners :: nat
  framesRequested :: nat
  framesRendered :: nat

text \<open>The state when the module has just been loaded.\<close>

definition module_loaded :: room where
  "module_loaded =
    \<lparr>scene = None, camera = None, renderer = None, controls = None,
     animationId = None, isInitialized = False,
     roomLights = (\<lambda>n. None), lightsOn = True,
     appended = [], resizeListeners = 0, framesRequested = 0, framesRendered = 0\<rparr>"

text \<open>
  \<open>createLighting\<close> creates the six lights, stores them in \<open>roomLights\<close> and returns
  the group that holds them. The group and the registry refer to the same six objects;
  the model keeps them in \<open>roomLights\<close>, where \<open>toggleLight\<close> writes them.
\<close>

definition createLighting :: "room \<Rightarrow> scene_child \<times> room" where
  "createLighting s =
    (let rl = roomLights s;
         rl = rl(Ambient \<mapsto> \<lparr>kind = AmbientLight, color = 4210784, intensity = Fin 0.4\<rparr>);
         rl = rl(DeskLight \<mapsto> \<lparr>kind = PointLight, color = 16772829, intensity = Fin 1.2\<rparr>);
         rl = rl(MonitorLight \<mapsto> \<lparr>kind = PointLight, color = 54527, intensity = Fin 0.8\<rparr>);
         rl = rl(LedLight \<mapsto> \<lparr>kind = PointLight, color = 8073207, intensity = Fin 0.6\<rparr>);
         rl = rl(CeilingLight \<mapsto> \<lparr>kind = PointLight, color = 15658751, intensity = Fin 1.5\<rparr>);
         rl = rl(FillLight \<mapsto> \<lparr>kind = DirectionalLight, color = 3359846, intensity = Fin 0.3\<rparr>)
     in (Lighting, s\<lparr>roomLights := rl\<rparr>))"

text \<open>
  The assignment \<open>roomLights.<name>.intensity = v\<close>. When the key holds \<open>null\<close> the
  assignment throws a \<open>TypeError\<close> and writes nothing: the result is \<open>None\<close>.
\<close>

definition set_intensity :: "light_name \<Rightarrow> jsnum \<Rightarrow> room \<Rightarrow> room option" where
  "set_intensity n v s =
    (case roomLights s n of
       None \<Rightarrow> None
     | Some l \<Rightarrow> Some (s\<lparr>roomLights := (roomLights s)(n \<mapsto> l\<lparr>intensity := v\<rparr>)\<rparr>))"

datatype js_error = TypeError

text \<open>
  \<open>toggleLight\<close>: the flag is flipped first, then the four assignments run in order.
  The result is the returned flag, or the error thrown, with the state at that point.
\<close>

definition toggleLight :: "room \<Rightarrow> (js_error + bool) \<times> room" where
  "toggleLight s0 =
    (let s = s0\<lparr>lightsOn := \<not> lightsOn s0\<rparr>
     in if lightsOn s
        then
          (case set_intensity Ambient (Fin 0.4) s of
             None \<Rightarrow> (Inl TypeError, s)
           | Some s1 \<Rightarrow>
          (case set_intensity DeskLight (Fin 1.2) s1 of
             None \<Rightarrow> (Inl TypeError, s1)
           | Some s2 \<Rightarrow>
          (case set_intensity CeilingLight (Fin 1.5) s2 of
             None \<Rightarrow> (Inl TypeError, s2)
           | Some s3 \<Rightarrow>
          (case set_intensity FillLight (Fin 0.3) s3 of
             None \<Rightarrow> (Inl TypeError, s3)
           | Some s4 \<Rightarrow> (Inr (lightsOn s4), s4)))))
        else
          (case set_intensity Ambient (Fin 0.08) s of
             None \<Rightarrow> (Inl TypeError, s)
           | Some s1 \<Rightarrow>
          (case set_intensity DeskLight (Fin 0.1) s1 of
             None \<Rightarrow> (Inl TypeError, s1)
           | Some s2 \<Rightarrow>
          (case set_intensity CeilingLight (Fin 0) s2 of
             None \<Rightarrow> (Inl TypeError, s2)
           | Some s3 \<Rightarrow>
          (case set_intensity FillLight (Fin 0) s3 of
             None \<Rightarrow> (Inl TypeError, s3)
           | Some s4 \<Rightarrow> (Inr (lightsOn s4), s4))))))"

text \<open>
  \<open>init3DRoom(container)\<close>, in the order of the source: the guard and the flag, the
  scene, the camera (its aspect is \<open>clientWidth / clientHeight\<close>), the renderer sized
  to the container, its canvas appended to the container, the controls, the fourteen
  \<open>scene.add\<close> calls, the resize listener, and the first call of the inner \<open>animate\<close>,
  which requests a frame and renders once. Of the \<open>create...\<close> functions only
  \<open>createLighting\<close> writes a module variable, so it alone is a state transformer here.
  Settings with constant arguments (fog, camera position, shadow and tone mapping,
  pixel ratio, the limits of the controls) are left out.
\<close>

definition init3DRoom :: "container \<Rightarrow> room \<Rightarrow> room" where
  "init3DRoom c s0 =
    (if isInitialized s0 then s0
     else
       (let s = s0\<lparr>isInitialized := True\<rparr>;
            s = s\<lparr>scene := Some \<lparr>background = 394768, children = []\<rparr>\<rparr>;
            s = s\<lparr>camera := Some \<lparr>fov = Fin 55,
                   aspect = jdiv (Fin (real (clientWidth c))) (Fin (real (clientHeight c)))\<rparr>\<rparr>;
            s = s\<lparr>renderer := Some \<lparr>r_width = clientWidth c, r_height = clientHeight c\<rparr>\<rparr>;
            s = s\<lparr>appended := appended s @ [c]\<rparr>;
            s = s\<lparr>controls := Some OrbitControls\<rparr>;
            (lighting, s) = createLighting s;
            s = s\<lparr>scene := map_option
                   (\<lambda>sc. sc\<lparr>children := children sc @
                      [Room, Desk, Monitor, SecondMonitor, Peripherals, Chair, Posters,
                       Bookshelf, Decorations, lighting, FloorMat, Bed,
                       MordekaiserFigurine, HollowKnightFigurine]\<rparr>) (scene s)\<rparr>;
            s = s\<lparr>resizeListeners := resizeListeners s + 1\<rparr>;
            s = s\<lparr>framesRequested := framesRequested s + 1,
                  animationId := Some (framesRequested s + 1)\<rparr>;
            s = s\<lparr>framesRendered := framesRendered s + 1\<rparr>
        in s))"

text \<open>For the statements below: the intensity of a light of the registry.\<close>

definition light_intensity :: "room \<Rightarrow> light_name \<Rightarrow> jsnum option" where
  "light_intensity s n = map_option intensity (roomLights s n)"

definition registry_populated :: "room \<Rightarrow> bool" where
  "registry_populated s =
    (roomLights s Ambient \<noteq> None \<and> roomLights s DeskLight \<noteq> None \<and>
     roomLights s MonitorLight \<noteq> None \<and> roomLights s LedLight \<noteq> None \<and>
     roomLights s CeilingLight \<noteq> None \<and> roomLights s FillLight \<noteq> None)"

definition on_presets :: "room \<Rightarrow> bool" where
  "on_presets s =
    (light_intensity s Ambient = Some (Fin 0.4) \<and> light_intensity s DeskLight = Some (Fin 1.2) \<and>
     light_intensity s CeilingLight = Some (Fin 1.5) \<and> light_intensity s FillLight = Some (Fin 0.3))"

definition off_presets :: "room \<Rightarrow> bool" where
  "off_presets s =
    (light_intensity s Ambient = Some (Fin 0.08) \<and> light_intensity s DeskLight = Some (Fin 0.1) \<and>
     light_intensity s CeilingLight = Some (Fin 0) \<and> light_intensity s FillLight = Some (Fin 0))"

definition container_800_600 :: container where
  "container_800_600 = \<lparr>clientWidth = 800, clientHeight = 600\<rparr>"


section \<open>The steps of update in the specification's words\<close>



















section \<open>Arithmetic\<close>





lemma jsub_fin: "jsub (Fin a) (Fin b) = Fin (a - b)"
  by (simp add: jsub_def)


lemma point_dist_fin:
  "point_dist (Fin ax) (Fin ay) (Fin bx) (Fin by) =
     Fin (sqrt ((ax - bx) * (ax - bx) + (ay - by) * (ay - by)))"
  by (simp add: point_dist_def jsub_fin not_sum_squares_lt_zero)

lemma point_dist_same_row:
  "point_dist (Fin ax) (Fin y) (Fin bx) (Fin y) = Fin \<bar>ax - bx\<bar>"
  by (simp add: point_dist_fin)




section \<open>Rounded arithmetic: exact arithmetic and the grid\<close>

lemma radd_exact: "radd Fin a b = jadd a b"
  by (cases a; cases b) simp_all

lemma rsub_exact: "rsub Fin a b = jsub a b"
  by (cases a; cases b) (simp_all add: jsub_def)

lemma rmul_exact: "rmul Fin a b = jmul a b"
  by (cases a; cases b) simp_all

lemma rdiv_exact: "rdiv Fin a b = jdiv a b"
  by (cases a; cases b) simp_all

lemma rsqrt_exact: "rsqrt Fin a = math_sqrt a"
  by (cases a) simp_all

lemma rounding_exact: "rounding Fin"
  by (simp add: rounding_def)

lemma update_rounded_exact: "update_rounded Fin cv ms p = update cv ms p"
  by (simp only: update_rounded_def update_def radd_exact rsub_exact rmul_exact rdiv_exact
      rsqrt_exact)



section \<open>Rounded arithmetic: binary64 is a rounding\<close>

lemma rne_bounds: "\<lfloor>x\<rfloor> \<le> rne x \<and> rne x \<le> \<lfloor>x\<rfloor> + 1"
  by (simp add: rne_def Let_def)

lemma rne_of_int: "rne (real_of_int n) = n"
  by (simp add: rne_def Let_def)

lemma rne_mono:
  assumes "x \<le> y"
  shows "rne x \<le> rne y"
proof (cases "\<lfloor>x\<rfloor> = \<lfloor>y\<rfloor>")
  case True
  then show ?thesis
    using assms by (auto simp add: rne_def Let_def)
next
  case False
  then have "\<lfloor>x\<rfloor> + 1 \<le> \<lfloor>y\<rfloor>"
    using assms floor_mono [of x y] by linarith
  then show ?thesis
    using rne_bounds [of x] rne_bounds [of y] by linarith
qed

lemma rne_minus: "rne (- x) = - rne x"
proof (cases "x = real_of_int \<lfloor>x\<rfloor>")
  case True
  then have "rne x = \<lfloor>x\<rfloor>" "rne (- x) = - \<lfloor>x\<rfloor>"
    using rne_of_int [of "\<lfloor>x\<rfloor>"] rne_of_int [of "- \<lfloor>x\<rfloor>"] by simp_all
  then show ?thesis by simp
next
  case False
  then have fl: "\<lfloor>- x\<rfloor> = - \<lfloor>x\<rfloor> - 1"
    by (metis False ceiling_altdef ceiling_def minus_diff_eq neg_equal_iff_equal diff_minus_eq_add add.commute uminus_add_conv_diff)
  show ?thesis
    using False by (auto simp add: rne_def Let_def fl)
qed

lemma quantum_pos: "0 < quantum r"
  by (simp add: quantum_def)

lemma expo_minus: "expo (- r) = expo r"
  by (simp add: expo_def)

lemma quantum_minus: "quantum (- r) = quantum r"
  by (simp add: quantum_def expo_minus)

lemma rounded_value_minus: "rounded_value (- r) = - rounded_value r"
  by (simp add: rounded_value_def quantum_minus rne_minus)

lemma rounded_value_zero: "rounded_value 0 = 0"
  using rne_of_int [of 0] by (simp add: rounded_value_def)

lemma expo_ge: "- 1022 \<le> expo r"
  by (simp add: expo_def)

lemma expo_mono:
  assumes "0 < r" "r \<le> s"
  shows "expo r \<le> expo s"
proof -
  have "log 2 r \<le> log 2 s"
    using assms by simp
  then have "\<lfloor>log 2 r\<rfloor> \<le> \<lfloor>log 2 s\<rfloor>"
    by (rule floor_mono)
  then show ?thesis
    using assms by (simp add: expo_def)
qed

lemma below_next_power:
  assumes "0 < r"
  shows "r < 2 powr real_of_int (expo r + 1)"
proof -
  have "log 2 r < real_of_int (\<lfloor>log 2 r\<rfloor> + 1)"
    by linarith
  also have "\<dots> \<le> real_of_int (expo r + 1)"
    using assms by (simp add: expo_def)
  finally have "log 2 r < real_of_int (expo r + 1)" .
  then show ?thesis
    using assms by (simp add: log_less_iff)
qed

lemma above_power:
  assumes "0 < r" "- 1022 < expo r"
  shows "2 powr real_of_int (expo r) \<le> r"
proof -
  have "expo r = \<lfloor>log 2 r\<rfloor>"
    using assms by (simp add: expo_def max_def split: if_splits)
  then have "real_of_int (expo r) \<le> log 2 r"
    by simp
  then show ?thesis
    using assms(1) by (simp add: le_log_iff)
qed

lemma quantum_times:
  "real_of_int (2 ^ 53) * quantum r = 2 powr real_of_int (expo r + 1)"
  "real_of_int (2 ^ 52) * quantum r = 2 powr real_of_int (expo r)"
proof -
  have a: "(2::real) powr 53 = real_of_int (2 ^ 53)"
    and b: "(2::real) powr 52 = real_of_int (2 ^ 52)"
    by (simp_all only: powr_numeral zero_less_numeral of_int_power of_int_numeral)
  have "real_of_int (expo r + 1) = 53 + real_of_int (expo r - 52)"
    by simp
  then have "2 powr real_of_int (expo r + 1) = 2 powr 53 * 2 powr real_of_int (expo r - 52)"
    by (simp only: powr_add)
  then show "real_of_int (2 ^ 53) * quantum r = 2 powr real_of_int (expo r + 1)"
    by (simp only: quantum_def a)
  have "real_of_int (expo r) = 52 + real_of_int (expo r - 52)"
    by simp
  then have "2 powr real_of_int (expo r) = 2 powr 52 * 2 powr real_of_int (expo r - 52)"
    by (simp only: powr_add)
  then show "real_of_int (2 ^ 52) * quantum r = 2 powr real_of_int (expo r)"
    by (simp only: quantum_def b)
qed

lemma rounded_value_nonneg:
  assumes "0 \<le> r"
  shows "0 \<le> rounded_value r"
proof -
  have "0 \<le> r / quantum r"
    using assms quantum_pos [of r] by simp
  then have "rne 0 \<le> rne (r / quantum r)"
    by (rule rne_mono)
  then have "0 \<le> rne (r / quantum r)"
    using rne_of_int [of 0] by simp
  then show ?thesis
    using quantum_pos [of r] by (simp add: rounded_value_def)
qed

lemma rounded_value_upper:
  assumes "0 < r"
  shows "rounded_value r \<le> 2 powr real_of_int (expo r + 1)"
proof -
  have "r \<le> real_of_int (2 ^ 53) * quantum r"
    using below_next_power [OF assms] by (simp only: quantum_times)
  then have "r / quantum r \<le> real_of_int (2 ^ 53)"
    using quantum_pos [of r] by (simp add: pos_divide_le_eq del: power_numeral of_int_power)
  then have "rne (r / quantum r) \<le> rne (real_of_int (2 ^ 53))"
    by (rule rne_mono)
  then have "rne (r / quantum r) \<le> 2 ^ 53"
    by (simp only: rne_of_int)
  then have "real_of_int (rne (r / quantum r)) \<le> real_of_int (2 ^ 53)"
    by (simp only: of_int_le_iff)
  then have "rounded_value r \<le> real_of_int (2 ^ 53) * quantum r"
    using quantum_pos [of r] unfolding rounded_value_def
    by (intro mult_right_mono) simp_all
  then show ?thesis
    by (simp only: quantum_times)
qed

lemma rounded_value_lower:
  assumes "0 < r" "- 1022 < expo r"
  shows "2 powr real_of_int (expo r) \<le> rounded_value r"
proof -
  have "real_of_int (2 ^ 52) * quantum r \<le> r"
    using above_power [OF assms] by (simp only: quantum_times)
  then have "real_of_int (2 ^ 52) \<le> r / quantum r"
    using quantum_pos [of r] by (simp add: pos_le_divide_eq del: power_numeral of_int_power)
  then have "rne (real_of_int (2 ^ 52)) \<le> rne (r / quantum r)"
    by (rule rne_mono)
  then have "2 ^ 52 \<le> rne (r / quantum r)"
    by (simp only: rne_of_int)
  then have "real_of_int (2 ^ 52) \<le> real_of_int (rne (r / quantum r))"
    by (simp only: of_int_le_iff)
  then have "real_of_int (2 ^ 52) * quantum r \<le> rounded_value r"
    using quantum_pos [of r] unfolding rounded_value_def
    by (intro mult_right_mono) simp_all
  then show ?thesis
    by (simp only: quantum_times)
qed

lemma rounded_value_mono_pos:
  assumes "0 < r" "r \<le> s"
  shows "rounded_value r \<le> rounded_value s"
proof (cases "expo r = expo s")
  case True
  then have q: "quantum r = quantum s"
    by (simp add: quantum_def)
  have "r / quantum s \<le> s / quantum s"
    using assms(2) quantum_pos [of s] by (simp add: divide_right_mono)
  then have "rne (r / quantum s) \<le> rne (s / quantum s)"
    by (rule rne_mono)
  then show ?thesis
    using quantum_pos [of s] by (simp add: rounded_value_def q)
next
  case False
  then have lt: "expo r < expo s"
    using expo_mono [OF assms] by simp
  have s: "0 < s"
    using assms by simp
  have "- 1022 < expo s"
    using lt expo_ge [of r] by simp
  then have low: "2 powr real_of_int (expo s) \<le> rounded_value s"
    by (rule rounded_value_lower [OF s])
  have "real_of_int (expo r + 1) \<le> real_of_int (expo s)"
    using lt by simp
  then have "(2::real) powr real_of_int (expo r + 1) \<le> 2 powr real_of_int (expo s)"
    by (intro powr_mono) simp_all
  then show ?thesis
    using rounded_value_upper [OF assms(1)] low by linarith
qed

lemma rounded_value_mono:
  assumes "r \<le> s"
  shows "rounded_value r \<le> rounded_value s"
proof -
  consider "0 < r" | "r \<le> 0" "0 \<le> s" | "s < 0"
    using assms by linarith
  then show ?thesis
  proof cases
    case 1
    then show ?thesis using assms by (rule rounded_value_mono_pos)
  next
    case 2
    have "0 \<le> rounded_value (- r)"
      using 2(1) by (intro rounded_value_nonneg) simp
    then have "rounded_value r \<le> 0"
      by (simp add: rounded_value_minus)
    then show ?thesis
      using rounded_value_nonneg [OF 2(2)] by linarith
  next
    case 3
    then have "rounded_value (- s) \<le> rounded_value (- r)"
      using assms by (intro rounded_value_mono_pos) simp_all
    then show ?thesis
      by (simp add: rounded_value_minus)
  qed
qed

lemma expo_cases:
  assumes "0 < s" "s \<le> 2 powr real_of_int (e + 1)"
    and "- 1022 < e \<longrightarrow> 2 powr real_of_int e \<le> s" and "- 1022 \<le> e"
  shows "expo s = e \<or> (s = 2 powr real_of_int (e + 1) \<and> expo s = e + 1)"
proof (cases "s = 2 powr real_of_int (e + 1)")
  case True
  then have "log 2 s = real_of_int (e + 1)"
    by simp
  then have "\<lfloor>log 2 s\<rfloor> = e + 1"
    by (simp only: floor_of_int)
  then show ?thesis
    using True assms(1,4) by (simp add: expo_def)
next
  case False
  then have "s < 2 powr real_of_int (e + 1)"
    using assms(2) by simp
  then have "log 2 s < real_of_int (e + 1)"
    using assms(1) by (simp add: log_less_iff)
  then have up: "\<lfloor>log 2 s\<rfloor> \<le> e"
    by linarith
  show ?thesis
  proof (cases "- 1022 < e")
    case True
    then have "2 powr real_of_int e \<le> s"
      using assms(3) by simp
    then have "real_of_int e \<le> log 2 s"
      using assms(1) by (simp add: le_log_iff)
    then have "e \<le> \<lfloor>log 2 s\<rfloor>"
      by linarith
    then show ?thesis
      using up True assms(1) by (simp add: expo_def)
  next
    case False
    then have "e = - 1022"
      using assms(4) by simp
    then show ?thesis
      using up assms(1) by (simp add: expo_def)
  qed
qed

lemma rounded_value_idem_pos:
  assumes "0 < r"
  shows "rounded_value (rounded_value r) = rounded_value r"
proof (cases "rounded_value r = 0")
  case True
  then show ?thesis
    by (simp add: rounded_value_zero)
next
  case False
  define s where "s = rounded_value r"
  define n where "n = rne (r / quantum r)"
  have s: "s = real_of_int n * quantum r"
    by (simp add: s_def n_def rounded_value_def)
  have pos: "0 < s"
    using False rounded_value_nonneg [of r] assms by (simp add: s_def)
  have "expo s = expo r \<or> (s = 2 powr real_of_int (expo r + 1) \<and> expo s = expo r + 1)"
    using rounded_value_upper [OF assms] rounded_value_lower [OF assms] expo_ge [of r]
    by (intro expo_cases [OF pos]) (simp_all add: s_def)
  then show ?thesis
  proof
    assume "expo s = expo r"
    then have q: "quantum s = quantum r"
      by (simp add: quantum_def)
    have "s / quantum r = real_of_int n"
      using quantum_pos [of r] by (simp add: s)
    then have "s / quantum s = real_of_int n"
      by (simp only: q)
    then have "rounded_value s = real_of_int n * quantum r"
      by (simp only: rounded_value_def rne_of_int q)
    then have "rounded_value s = s"
      by (simp only: s)
    then show ?thesis
      by (simp only: s_def)
  next
    assume a: "s = 2 powr real_of_int (expo r + 1) \<and> expo s = expo r + 1"
    have "s = 2 powr real_of_int (expo r + 1)"
      using a by (rule conjunct1)
    also have "expo r + 1 = expo s"
      by (rule a [THEN conjunct2, symmetric])
    finally have "s = 2 powr real_of_int (expo s)" .
    then have sq: "s = real_of_int (2 ^ 52) * quantum s"
      by (simp only: quantum_times)
    then have "s / quantum s = real_of_int (2 ^ 52)"
      using quantum_pos [of s] by (simp add: nonzero_divide_eq_eq del: power_numeral of_int_power)
    then have "rounded_value s = real_of_int (2 ^ 52) * quantum s"
      by (simp only: rounded_value_def rne_of_int)
    then have "rounded_value s = s"
      using sq by simp
    then show ?thesis
      by (simp only: s_def)
  qed
qed

lemma rounded_value_idem: "rounded_value (rounded_value r) = rounded_value r"
proof -
  consider "0 < r" | "r = 0" | "r < 0"
    by linarith
  then show ?thesis
  proof cases
    case 1
    then show ?thesis by (rule rounded_value_idem_pos)
  next
    case 2
    then show ?thesis by (simp add: rounded_value_zero)
  next
    case 3
    then have "rounded_value (rounded_value (- r)) = rounded_value (- r)"
      by (intro rounded_value_idem_pos) simp
    then show ?thesis
      by (simp add: rounded_value_minus)
  qed
qed

lemma rounded_value_sign:
  "(r \<le> 0 \<longrightarrow> rounded_value r \<le> 0) \<and> (0 \<le> r \<longrightarrow> 0 \<le> rounded_value r)"
  using rounded_value_mono [of r 0] rounded_value_mono [of 0 r]
  by (simp add: rounded_value_zero)

lemma binary64_cases:
  "(binary64 r = PInf \<and> 2 ^ 1024 \<le> rounded_value r) \<or>
   (binary64 r = NInf \<and> rounded_value r \<le> - (2 ^ 1024)) \<or>
   (binary64 r = Fin (rounded_value r) \<and> \<bar>rounded_value r\<bar> < 2 ^ 1024)"
proof -
  consider "2 ^ 1024 \<le> rounded_value r" | "rounded_value r \<le> - (2 ^ 1024)"
    | "\<bar>rounded_value r\<bar> < 2 ^ 1024"
    by (cases "0 \<le> rounded_value r") (simp_all add: abs_if not_le, linarith+)
  then show ?thesis
  proof cases
    case 1
    then have "0 < r"
      using rounded_value_sign [of r] by (cases "0 < r") simp_all
    then show ?thesis
      using 1 by (simp add: binary64_def signed_inf_def abs_if)
  next
    case 2
    then have "r < 0"
      using rounded_value_sign [of r] by (cases "r < 0") simp_all
    then show ?thesis
      using 2 by (simp add: binary64_def signed_inf_def abs_if)
  next
    case 3
    then show ?thesis
      by (simp add: binary64_def)
  qed
qed

lemma rounding_binary64: "rounding binary64"
proof -
  have nan: "binary64 r \<noteq> NaN" for r
    using binary64_cases [of r] by auto
  have zero: "binary64 0 = Fin 0"
    by (simp add: binary64_def rounded_value_zero)
  have mono: "jle (binary64 r) (binary64 s)" if "r \<le> s" for r s
    using binary64_cases [of r] binary64_cases [of s] rounded_value_mono [OF that]
    by (auto simp add: abs_if split: if_splits)
  have idem: "binary64 s = Fin s" if "binary64 r = Fin s" for r s
  proof -
    have s: "s = rounded_value r" and small: "\<bar>rounded_value r\<bar> < 2 ^ 1024"
      using that binary64_cases [of r] by auto
    have "rounded_value s = s"
      by (simp only: s rounded_value_idem)
    then show ?thesis
      using small s by (simp add: binary64_def)
  qed
  show ?thesis
    unfolding rounding_def using nan zero mono idem by blast
qed


section \<open>Rounded arithmetic: signs and order\<close>







lemma jle_trans: "jle a b \<Longrightarrow> jle b c \<Longrightarrow> jle a c"
  by (cases a; cases b; cases c) simp_all























section \<open>What update computes on finite inputs\<close>




lemma update_coincident:
  assumes "p_x p = Fin px" "p_y p = Fin py" "p_speedX p = Fin vx" "p_speedY p = Fin vy"
    and "m_x ms = Some (Fin mx)" "m_y ms = Some (Fin my)"
    and "px + vx = mx" "py + vy = my"
  shows "update cv ms p = p\<lparr>p_x := NaN, p_y := NaN\<rparr>"
  using assms
  by (simp add: update_def jsub_fin jgt_def Let_def signed_inf_def)

text \<open>
  Whatever the inputs, the clamp leaves a coordinate inside the canvas or \<open>NaN\<close>:
  \<open>Math.min\<close> and \<open>Math.max\<close> pass \<open>NaN\<close> through.
\<close>

lemma clamp_nan_or_bounds:
  "math_max (Fin 0) (math_min (Fin (real w)) a) = NaN \<or>
   (\<exists>r. math_max (Fin 0) (math_min (Fin (real w)) a) = Fin r \<and> 0 \<le> r \<and> r \<le> real w)"
  by (cases a) auto

lemma update_nan_or_bounds:
  "(p_x (update cv ms p) = NaN \<or>
     (\<exists>r. p_x (update cv ms p) = Fin r \<and> 0 \<le> r \<and> r \<le> real (width cv))) \<and>
   (p_y (update cv ms p) = NaN \<or>
     (\<exists>r. p_y (update cv ms p) = Fin r \<and> 0 \<le> r \<and> r \<le> real (height cv)))"
proof -
  have "\<exists>x2. p_x (update cv ms p) = math_max (Fin 0) (math_min (Fin (real (width cv))) x2)"
    by (simp add: update_def Let_def split: prod.splits del: math_min.simps math_max.simps)
      blast
  moreover
  have "\<exists>y2. p_y (update cv ms p) = math_max (Fin 0) (math_min (Fin (real (height cv))) y2)"
    by (simp add: update_def Let_def split: prod.splits del: math_min.simps math_max.simps)
      blast
  ultimately show ?thesis
    using clamp_nan_or_bounds [of "width cv"] clamp_nan_or_bounds [of "height cv"]
    by metis
qed


section \<open>Frame of update\<close>

text \<open>
  C10. For every particle, pointer state and canvas, \<open>update\<close> leaves the particle's
  size and opacity as they were: only position and velocity are assigned.
\<close>

theorem update_frame:
  "p_size (update cv ms p) = p_size p \<and> p_opacity (update cv ms p) = p_opacity p"
  by (simp add: update_def Let_def split: prod.splits option.splits)


section \<open>The pointer at the particle\<close>

text \<open>
  C1. The position after \<open>update\<close> is meant to lie in the canvas, and the clamp at the
  end of \<open>update\<close> is there for that. It does not hold at this input: a particle at
  (99.75, 50.125) with speed (0.25, -0.125) and the pointer at (100, 50) on an 800 by
  600 canvas. After the velocity step the particle is at the pointer, \<open>dist\<close> is 0,
  \<open>dx / dist\<close> and \<open>dy / dist\<close> are \<open>0 / 0 = NaN\<close>, and the clamp returns \<open>NaN\<close> for
  both coordinates, which satisfy neither \<open>0 <= x\<close> nor \<open>x <= width\<close>.
\<close>

theorem update_coincident_not_in_canvas:
  "update canvas_800_600 \<lparr>m_x = Some (Fin 100), m_y = Some (Fin 50)\<rparr>
     \<lparr>p_x = Fin 99.75, p_y = Fin 50.125, p_size = Fin 1,
      p_speedX = Fin 0.25, p_speedY = Fin (- 0.125), p_opacity = Fin 0.5\<rparr>
   = \<lparr>p_x = NaN, p_y = NaN, p_size = Fin 1,
      p_speedX = Fin 0.25, p_speedY = Fin (- 0.125), p_opacity = Fin 0.5\<rparr>
   \<and> \<not> jle (Fin 0) NaN \<and> \<not> jle NaN (Fin (real (width canvas_800_600)))
   \<and> \<not> jle NaN (Fin (real (height canvas_800_600)))"
  by (simp add: update_def jsub_fin jgt_def canvas_800_600_def signed_inf_def)



text \<open>
  The two effects of rounding on the division, on the grid. A velocity step that the
  addition absorbs leaves the particle at the pointer, and the update gives \<open>NaN\<close> in
  both coordinates. A particle at (1/32, 0) and the pointer at (0, 0) are apart, but
  the square of 1/32 rounds to 0 and so does \<open>dist\<close>: \<open>dx / dist\<close> is \<open>Infinity\<close>, which
  the clamp brings to the canvas width, and \<open>dy / dist\<close> is \<open>0 / 0 = NaN\<close>.
\<close>

lemma grid_coincident_result:
  "update_rounded round_grid canvas_800_600 \<lparr>m_x = Some (Fin 100), m_y = Some (Fin 50)\<rparr>
      \<lparr>p_x = Fin 100, p_y = Fin 50, p_size = Fin 1,
       p_speedX = Fin (1 / 1024), p_speedY = Fin 0, p_opacity = Fin 0.5\<rparr>
   = \<lparr>p_x = NaN, p_y = NaN, p_size = Fin 1,
       p_speedX = Fin (1 / 1024), p_speedY = Fin 0, p_opacity = Fin 0.5\<rparr>"
  by (simp add: update_rounded_def round_grid_def round_def canvas_800_600_def jgt_def
      signed_inf_def Let_def)

lemma grid_underflow_result:
  "update_rounded round_grid canvas_800_600 \<lparr>m_x = Some (Fin 0), m_y = Some (Fin 0)\<rparr>
      \<lparr>p_x = Fin (1 / 32), p_y = Fin 0, p_size = Fin 1,
       p_speedX = Fin 0, p_speedY = Fin 0, p_opacity = Fin 0.5\<rparr>
   = \<lparr>p_x = Fin 800, p_y = NaN, p_size = Fin 1,
       p_speedX = Fin 0, p_speedY = Fin 0, p_opacity = Fin 0.5\<rparr>"
  by (simp add: update_rounded_def round_grid_def round_def canvas_800_600_def jgt_def
      signed_inf_def Let_def)


section \<open>Repulsion\<close>



text \<open>
  A push that the rounding absorbs, on the grid: a particle at rest at (219.875, 100)
  and the pointer at (100, 100). The computed distance is 119.875, the repulsion is
  executed, the force \<open>(120 - 119.875) / 120\<close> rounds to 0, and the update with the
  pointer gives the same particle as the update without it.
\<close>

lemma sqrt_absorb: "sqrt (919681 / 64 :: real) = 959 / 8"
  by (rule real_sqrt_unique) (simp_all add: power2_eq_square)

lemma grid_push_absorbed:
  "repulsion_operands round_grid \<lparr>m_x = Some (Fin 100), m_y = Some (Fin 100)\<rparr>
      \<lparr>p_x = Fin 219.875, p_y = Fin 100, p_size = Fin 1,
       p_speedX = Fin 0, p_speedY = Fin 0, p_opacity = Fin 0.5\<rparr>
     = Some (Fin 119.875, Fin 0, Fin 119.875) \<and>
   update_rounded round_grid canvas_800_600 \<lparr>m_x = Some (Fin 100), m_y = Some (Fin 100)\<rparr>
      \<lparr>p_x = Fin 219.875, p_y = Fin 100, p_size = Fin 1,
       p_speedX = Fin 0, p_speedY = Fin 0, p_opacity = Fin 0.5\<rparr>
   = update_rounded round_grid canvas_800_600 mouse_absent
      \<lparr>p_x = Fin 219.875, p_y = Fin 100, p_size = Fin 1,
       p_speedX = Fin 0, p_speedY = Fin 0, p_opacity = Fin 0.5\<rparr>"
  by (simp add: repulsion_operands_def update_rounded_def round_grid_def round_def
      canvas_800_600_def mouse_absent_def jgt_def Let_def sqrt_absorb)



section \<open>The steps of update\<close>








section \<open>The particle count\<close>

lemma update_size: "p_size (update cv ms p) = p_size p"
  by (simp add: update_def Let_def split: prod.splits option.splits)

lemma update_opacity: "p_opacity (update cv ms p) = p_opacity p"
  by (simp add: update_def Let_def split: prod.splits option.splits)

lemma fill_particles_length:
  "length (fill_particles cv rnd n i ps) = length ps + (n - i)"
proof (induction cv rnd n i ps rule: fill_particles.induct)
  case (1 cv rnd n i ps)
  show ?case
  proof (cases "i < n")
    case True
    then show ?thesis
      using "1" by (subst fill_particles.simps) simp
  next
    case False
    then show ?thesis by (subst fill_particles.simps) simp
  qed
qed

lemma handle_length: "length (f_particles (handle e s)) = length (f_particles s)"
  by (cases e) (simp_all add: animate_def Let_def)

lemma run_length: "length (f_particles (run es s)) = length (f_particles s)"
  by (induction es arbitrary: s) (simp_all add: handle_length)

lemma handle_sizes:
  "map p_size (f_particles (handle e s)) = map p_size (f_particles s) \<and>
   map p_opacity (f_particles (handle e s)) = map p_opacity (f_particles s)"
  by (cases e) (simp_all add: animate_def Let_def comp_def update_size update_opacity)

lemma run_sizes:
  "map p_size (f_particles (run es s)) = map p_size (f_particles s) \<and>
   map p_opacity (f_particles (run es s)) = map p_opacity (f_particles s)"
  by (induction es arbitrary: s) (simp_all add: handle_sizes)

text \<open>
  C7. When \<open>initParticles\<close> finds the canvas, the field has 40 particles if the
  window's inner width is below 768 and 80 otherwise, and after any sequence of
  resizes, pointer events and frames it has that many particles still: the same
  particles, each with the size and opacity it was created with.
\<close>

theorem particle_count:
  assumes "initParticles found innerWidth innerHeight rnd = Some s"
  shows "length (f_particles s) = (if innerWidth < 768 then 40 else 80) \<and>
         length (f_particles (run es s)) = (if innerWidth < 768 then 40 else 80) \<and>
         map p_size (f_particles (run es s)) = map p_size (f_particles s) \<and>
         map p_opacity (f_particles (run es s)) = map p_opacity (f_particles s)"
proof -
  have "length (f_particles s) = (if innerWidth < 768 then 40 else 80)"
    using assms
    by (auto simp add: initParticles_def animate_def Let_def fill_particles_length
        split: if_splits)
  then show ?thesis
    by (simp add: run_length run_sizes)
qed

theorem particle_count_witness:
  "length (f_particles (the (initParticles True 1024 768 (\<lambda>k. 0.5)))) = 80 \<and>
   length (f_particles (run [Frame, Resize 500 400, MouseMove 10 20, Frame, MouseLeave, Frame]
     (the (initParticles True 1024 768 (\<lambda>k. 0.5))))) = 80 \<and>
   length (f_particles (run [Resize 1024 768, Frame]
     (the (initParticles True 500 400 (\<lambda>k. 0.5))))) = 40"
proof -
  have a: "initParticles True 1024 768 (\<lambda>k. 0.5)
      = Some (the (initParticles True 1024 768 (\<lambda>k. 0.5)))"
    and b: "initParticles True 500 400 (\<lambda>k. 0.5)
      = Some (the (initParticles True 500 400 (\<lambda>k. 0.5)))"
    by (simp_all add: initParticles_def Let_def)
  show ?thesis
    using particle_count [OF a, of "[Frame, Resize 500 400, MouseMove 10 20, Frame, MouseLeave, Frame]"]
      particle_count [OF b, of "[Resize 1024 768, Frame]"]
    by simp
qed


section \<open>Connections\<close>

lemma conn_inner_eq:
  "conn_inner ps i j out = out @ concat (map (\<lambda>j. connect (ps ! i) (ps ! j)) [j..<length ps])"
proof (induction ps i j out rule: conn_inner.induct)
  case (1 ps i j out)
  show ?case
  proof (cases "j < length ps")
    case True
    then show ?thesis
      using "1" by (subst conn_inner.simps) (simp add: upt_conv_Cons)
  next
    case False
    then show ?thesis by (subst conn_inner.simps) simp
  qed
qed

lemma conn_outer_eq:
  "conn_outer ps i out =
     out @ concat (map (\<lambda>i. concat (map (\<lambda>j. connect (ps ! i) (ps ! j)) [i + 1..<length ps]))
                       [i..<length ps])"
proof (induction ps i out rule: conn_outer.induct)
  case (1 ps i out)
  show ?case
  proof (cases "i < length ps")
    case True
    then show ?thesis
      using "1" by (subst conn_outer.simps) (simp add: upt_conv_Cons conn_inner_eq)
  next
    case False
    then show ?thesis by (subst conn_outer.simps) simp
  qed
qed

lemma alpha_limit: "((\<lambda>d. 0.08 * (1 - d / 150)) \<longlongrightarrow> (0::real)) (at 150)"
  by (auto intro!: tendsto_eq_intros)

lemma connect_cases:
  "connect p q =
    (if jlt (point_dist (p_x p) (p_y p) (p_x q) (p_y q)) (Fin 150)
     then [Line (p_x p) (p_y p) (p_x q) (p_y q)
             (line_alpha (point_dist (p_x p) (p_y p) (p_x q) (p_y q)))]
     else [])"
  by (simp add: connect_def point_dist_def Let_def)

lemma jge_not_jlt: "jge a b \<Longrightarrow> \<not> jlt a b"
  by (cases a; cases b) (simp_all add: jge_def)

text \<open>
  C4. The drawing commands of a frame are the clear, one circle for each particle and
  then the lines of \<open>connections\<close> for the updated particles. \<open>connections\<close> visits
  every pair of indices \<open>i < j\<close> once, in order, and draws for it what \<open>connect\<close>
  gives: nothing when the distance of the two particles is at least 150, and exactly
  one line, with the alpha \<open>0.08 * (1 - d / 150)\<close>, when the distance \<open>d\<close> is below
  150. That alpha is 0.08 at distance 0 and tends to 0 as the distance tends to 150.
\<close>

theorem connection_lines:
  "snd (animate s) =
     ClearRect (Fin 0) (Fin 0) (Fin (real (width (f_canvas s)))) (Fin (real (height (f_canvas s))))
       # map draw_particle (f_particles (fst (animate s)))
       @ connections (f_particles (fst (animate s))) \<and>
   connections ps =
     concat (map (\<lambda>i. concat (map (\<lambda>j. connect (ps ! i) (ps ! j)) [i + 1..<length ps]))
                 [0..<length ps]) \<and>
   (jge (point_dist (p_x p) (p_y p) (p_x q) (p_y q)) (Fin 150) \<longrightarrow> connect p q = []) \<and>
   (jlt (point_dist (p_x p) (p_y p) (p_x q) (p_y q)) (Fin 150) \<longrightarrow>
      connect p q =
        [Line (p_x p) (p_y p) (p_x q) (p_y q)
           (line_alpha (point_dist (p_x p) (p_y p) (p_x q) (p_y q)))]) \<and>
   line_alpha (Fin d) = Fin (0.08 * (1 - d / 150)) \<and>
   line_alpha (Fin 0) = Fin 0.08 \<and>
   ((\<lambda>d. 0.08 * (1 - d / 150)) \<longlongrightarrow> (0::real)) (at 150)"
proof -
  have frame: "snd (animate s) =
     ClearRect (Fin 0) (Fin 0) (Fin (real (width (f_canvas s)))) (Fin (real (height (f_canvas s))))
       # map draw_particle (f_particles (fst (animate s)))
       @ connections (f_particles (fst (animate s)))"
    by (simp add: animate_def Let_def)
  have pairs: "connections ps =
     concat (map (\<lambda>i. concat (map (\<lambda>j. connect (ps ! i) (ps ! j)) [i + 1..<length ps]))
                 [0..<length ps])"
    by (simp add: connections_def conn_outer_eq)
  have far: "connect p q = []"
    if "jge (point_dist (p_x p) (p_y p) (p_x q) (p_y q)) (Fin 150)"
    using jge_not_jlt [OF that] by (simp add: connect_cases)
  have near: "connect p q =
        [Line (p_x p) (p_y p) (p_x q) (p_y q)
           (line_alpha (point_dist (p_x p) (p_y p) (p_x q) (p_y q)))]"
    if "jlt (point_dist (p_x p) (p_y p) (p_x q) (p_y q)) (Fin 150)"
    using that by (simp add: connect_cases)
  have alpha: "line_alpha (Fin d) = Fin (0.08 * (1 - d / 150))"
    by (simp add: line_alpha_def jsub_fin)
  have alpha0: "line_alpha (Fin 0) = Fin 0.08"
    by (simp add: line_alpha_def jsub_fin)
  show ?thesis
    using frame pairs far near alpha alpha0 alpha_limit by blast
qed

theorem connection_lines_witness:
  "jlt (point_dist (Fin 0) (Fin 0) (Fin 100) (Fin 0)) (Fin 150) \<and>
   jge (point_dist (Fin 0) (Fin 0) (Fin 300) (Fin 0)) (Fin 150) \<and>
   connect
     \<lparr>p_x = Fin 0, p_y = Fin 0, p_size = Fin 1, p_speedX = Fin 0, p_speedY = Fin 0,
      p_opacity = Fin 0.5\<rparr>
     \<lparr>p_x = Fin 100, p_y = Fin 0, p_size = Fin 1, p_speedX = Fin 0, p_speedY = Fin 0,
      p_opacity = Fin 0.5\<rparr>
     = [Line (Fin 0) (Fin 0) (Fin 100) (Fin 0) (Fin (0.08 * (1 - 100 / 150)))] \<and>
   connect
     \<lparr>p_x = Fin 0, p_y = Fin 0, p_size = Fin 1, p_speedX = Fin 0, p_speedY = Fin 0,
      p_opacity = Fin 0.5\<rparr>
     \<lparr>p_x = Fin 300, p_y = Fin 0, p_size = Fin 1, p_speedX = Fin 0, p_speedY = Fin 0,
      p_opacity = Fin 0.5\<rparr>
     = [] \<and>
   connections
     [\<lparr>p_x = Fin 0, p_y = Fin 0, p_size = Fin 1, p_speedX = Fin 0, p_speedY = Fin 0,
       p_opacity = Fin 0.5\<rparr>,
      \<lparr>p_x = Fin 100, p_y = Fin 0, p_size = Fin 1, p_speedX = Fin 0, p_speedY = Fin 0,
       p_opacity = Fin 0.5\<rparr>,
      \<lparr>p_x = Fin 300, p_y = Fin 0, p_size = Fin 1, p_speedX = Fin 0, p_speedY = Fin 0,
       p_opacity = Fin 0.5\<rparr>]
     = [Line (Fin 0) (Fin 0) (Fin 100) (Fin 0) (Fin (0.08 * (1 - 100 / 150)))]"
proof -
  let ?a = "\<lparr>p_x = Fin 0, p_y = Fin 0, p_size = Fin 1, p_speedX = Fin 0, p_speedY = Fin 0,
      p_opacity = Fin 0.5\<rparr>"
  let ?b = "\<lparr>p_x = Fin 100, p_y = Fin 0, p_size = Fin 1, p_speedX = Fin 0, p_speedY = Fin 0,
      p_opacity = Fin 0.5\<rparr>"
  let ?c = "\<lparr>p_x = Fin 300, p_y = Fin 0, p_size = Fin 1, p_speedX = Fin 0, p_speedY = Fin 0,
      p_opacity = Fin 0.5\<rparr>"
  have ab: "point_dist (Fin 0) (Fin 0) (Fin 100) (Fin 0) = Fin 100"
    and ac: "point_dist (Fin 0) (Fin 0) (Fin 300) (Fin 0) = Fin 300"
    and bc: "point_dist (Fin 100) (Fin 0) (Fin 300) (Fin 0) = Fin 200"
    by (simp_all add: point_dist_same_row)
  have near: "connect ?a ?b = [Line (Fin 0) (Fin 0) (Fin 100) (Fin 0) (Fin (0.08 * (1 - 100 / 150)))]"
    using connection_lines [where p = ?a and q = ?b and d = 100] ab by simp
  have far: "connect ?a ?c = []"
    using connection_lines [where p = ?a and q = ?c] ac by (simp add: jge_def)
  have far': "connect ?b ?c = []"
    using connection_lines [where p = ?b and q = ?c] bc by (simp add: jge_def)
  have "connections [?a, ?b, ?c] = connect ?a ?b @ connect ?a ?c @ connect ?b ?c"
    using connection_lines [where ps = "[?a, ?b, ?c]"] by (simp add: upt_rec)
  then show ?thesis
    using near far far' ab ac by (simp add: jge_def)
qed


section \<open>The light toggle\<close>

lemma toggle_populated:
  assumes "registry_populated s"
  shows "toggleLight s =
    (Inr (\<not> lightsOn s),
     s\<lparr>lightsOn := \<not> lightsOn s,
       roomLights := (roomLights s)
         (Ambient \<mapsto> (the (roomLights s Ambient))
            \<lparr>intensity := (if lightsOn s then Fin 0.08 else Fin 0.4)\<rparr>,
          DeskLight \<mapsto> (the (roomLights s DeskLight))
            \<lparr>intensity := (if lightsOn s then Fin 0.1 else Fin 1.2)\<rparr>,
          CeilingLight \<mapsto> (the (roomLights s CeilingLight))
            \<lparr>intensity := (if lightsOn s then Fin 0 else Fin 1.5)\<rparr>,
          FillLight \<mapsto> (the (roomLights s FillLight))
            \<lparr>intensity := (if lightsOn s then Fin 0 else Fin 0.3)\<rparr>)\<rparr>)"
  using assms
  by (auto simp add: toggleLight_def set_intensity_def registry_populated_def Let_def)

lemma toggle_keeps_populated:
  assumes "registry_populated s"
  shows "registry_populated (snd (toggleLight s))"
  using assms by (simp add: toggle_populated) (simp add: registry_populated_def)

text \<open>
  C5. Start with the lights on and all six lights in the registry. One call of
  \<open>toggleLight\<close> returns false and leaves ambient, desk, ceiling and fill light at
  0.08, 0.1, 0 and 0, with the monitor and LED lights as they were. A second call
  returns true and leaves the four lights at 0.4, 1.2, 1.5 and 0.3, again with the
  monitor and LED lights as they were. If the four lights started at those values,
  as they do after \<open>init3DRoom\<close>, the state after the two calls is the state before.
\<close>

theorem toggle_round_trip:
  assumes "lightsOn s" and "registry_populated s"
  shows "fst (toggleLight s) = Inr False \<and>
         off_presets (snd (toggleLight s)) \<and>
         light_intensity (snd (toggleLight s)) MonitorLight = light_intensity s MonitorLight \<and>
         light_intensity (snd (toggleLight s)) LedLight = light_intensity s LedLight \<and>
         fst (toggleLight (snd (toggleLight s))) = Inr True \<and>
         on_presets (snd (toggleLight (snd (toggleLight s)))) \<and>
         light_intensity (snd (toggleLight (snd (toggleLight s)))) MonitorLight
           = light_intensity s MonitorLight \<and>
         light_intensity (snd (toggleLight (snd (toggleLight s)))) LedLight
           = light_intensity s LedLight \<and>
         (on_presets s \<longrightarrow> snd (toggleLight (snd (toggleLight s))) = s)"
proof -
  define s1 where "s1 = snd (toggleLight s)"
  define s2 where "s2 = snd (toggleLight s1)"
  have pop1: "registry_populated s1"
    using assms(2) by (simp add: s1_def toggle_keeps_populated)
  have r1: "fst (toggleLight s) = Inr False"
    using assms by (simp add: toggle_populated)
  have off1: "lightsOn s1 = False"
    using assms by (simp add: s1_def toggle_populated)
  have l1: "roomLights s1 = (roomLights s)
         (Ambient \<mapsto> (the (roomLights s Ambient))\<lparr>intensity := Fin 0.08\<rparr>,
          DeskLight \<mapsto> (the (roomLights s DeskLight))\<lparr>intensity := Fin 0.1\<rparr>,
          CeilingLight \<mapsto> (the (roomLights s CeilingLight))\<lparr>intensity := Fin 0\<rparr>,
          FillLight \<mapsto> (the (roomLights s FillLight))\<lparr>intensity := Fin 0\<rparr>)"
    using assms by (simp add: s1_def toggle_populated)
  have r2: "fst (toggleLight s1) = Inr True"
    using pop1 off1 by (simp add: toggle_populated)
  have on2: "lightsOn s2 = True"
    using pop1 off1 by (simp add: s2_def toggle_populated)
  have l2: "roomLights s2 = (roomLights s)
         (Ambient \<mapsto> (the (roomLights s Ambient))\<lparr>intensity := Fin 0.4\<rparr>,
          DeskLight \<mapsto> (the (roomLights s DeskLight))\<lparr>intensity := Fin 1.2\<rparr>,
          CeilingLight \<mapsto> (the (roomLights s CeilingLight))\<lparr>intensity := Fin 1.5\<rparr>,
          FillLight \<mapsto> (the (roomLights s FillLight))\<lparr>intensity := Fin 0.3\<rparr>)"
    using pop1 off1 by (simp add: s2_def toggle_populated l1 fun_eq_iff)
  have rest2: "s2 = s\<lparr>lightsOn := True, roomLights := roomLights s2\<rparr>"
    using pop1 off1 assms by (simp add: s2_def s1_def toggle_populated)
  have restored: "s2 = s" if "on_presets s"
  proof -
    have "roomLights s2 n = roomLights s n" for n
      using that assms(2)
      by (cases n)
         (auto simp add: l2 on_presets_def light_intensity_def registry_populated_def)
    then have "roomLights s2 = roomLights s"
      by (simp add: fun_eq_iff)
    then show ?thesis
      using rest2 assms(1) by simp
  qed
  show ?thesis
    using r1 r2 restored
    by (simp add: s1_def [symmetric] s2_def [symmetric] l1 l2 off_presets_def on_presets_def
        light_intensity_def)
qed

theorem toggle_round_trip_witness:
  "lightsOn (init3DRoom container_800_600 module_loaded) \<and>
   registry_populated (init3DRoom container_800_600 module_loaded) \<and>
   on_presets (init3DRoom container_800_600 module_loaded) \<and>
   fst (toggleLight (init3DRoom container_800_600 module_loaded)) = Inr False \<and>
   off_presets (snd (toggleLight (init3DRoom container_800_600 module_loaded))) \<and>
   light_intensity (snd (toggleLight (init3DRoom container_800_600 module_loaded))) MonitorLight
     = Some (Fin 0.8) \<and>
   light_intensity (snd (toggleLight (init3DRoom container_800_600 module_loaded))) LedLight
     = Some (Fin 0.6) \<and>
   fst (toggleLight (snd (toggleLight (init3DRoom container_800_600 module_loaded)))) = Inr True \<and>
   snd (toggleLight (snd (toggleLight (init3DRoom container_800_600 module_loaded))))
     = init3DRoom container_800_600 module_loaded"
proof -
  let ?s = "init3DRoom container_800_600 module_loaded"
  have on: "lightsOn ?s"
    by (simp add: init3DRoom_def createLighting_def module_loaded_def Let_def)
  have pop: "registry_populated ?s"
    by (simp add: init3DRoom_def createLighting_def module_loaded_def Let_def
        registry_populated_def)
  have pre: "on_presets ?s"
    by (simp add: init3DRoom_def createLighting_def module_loaded_def Let_def
        on_presets_def light_intensity_def)
  have mon: "light_intensity ?s MonitorLight = Some (Fin 0.8)"
    and led: "light_intensity ?s LedLight = Some (Fin 0.6)"
    by (simp_all add: init3DRoom_def createLighting_def module_loaded_def Let_def
        light_intensity_def)
  show ?thesis
    using toggle_round_trip [OF on pop] on pop pre mon led by simp
qed

text \<open>
  C6. Before the scene is built every key of the registry holds \<open>null\<close>. A call of
  \<open>toggleLight\<close> then throws a \<open>TypeError\<close> at the first assignment and writes no
  intensity, but it has already flipped \<open>lightsOn\<close> to false, and the flag stays so.
  The difference shows once the room is built: the first toggle then returns true and
  leaves the lights on, where without the failed call it returns false and turns them
  off.
\<close>

theorem toggle_before_build:
  "lightsOn module_loaded \<and>
   toggleLight module_loaded = (Inl TypeError, module_loaded\<lparr>lightsOn := False\<rparr>) \<and>
   fst (toggleLight (init3DRoom container_800_600 module_loaded)) = Inr False \<and>
   fst (toggleLight (init3DRoom container_800_600 (snd (toggleLight module_loaded)))) = Inr True"
  by (simp add: toggleLight_def set_intensity_def module_loaded_def init3DRoom_def
      createLighting_def Let_def)


section \<open>Building the room once\<close>

text \<open>
  C9. A second call of \<open>init3DRoom\<close>, with any container, leaves the whole state
  exactly as the first call left it. When the room was not built before, the first
  call builds it: the scene has its 14 children, one canvas has been appended (to the
  first container), one resize listener added and one frame requested, and the second
  call adds nothing to any of these.
\<close>

theorem init_twice:
  "init3DRoom c2 (init3DRoom c1 s) = init3DRoom c1 s \<and>
   (\<not> isInitialized s \<longrightarrow>
      isInitialized (init3DRoom c1 s) \<and>
      map_option children (scene (init3DRoom c2 (init3DRoom c1 s)))
        = Some [Room, Desk, Monitor, SecondMonitor, Peripherals, Chair, Posters, Bookshelf,
                Decorations, Lighting, FloorMat, Bed, MordekaiserFigurine,
                HollowKnightFigurine] \<and>
      appended (init3DRoom c2 (init3DRoom c1 s)) = appended s @ [c1] \<and>
      resizeListeners (init3DRoom c2 (init3DRoom c1 s)) = resizeListeners s + 1 \<and>
      framesRequested (init3DRoom c2 (init3DRoom c1 s)) = framesRequested s + 1)"
  by (simp add: init3DRoom_def createLighting_def Let_def)

theorem init_twice_witness:
  "\<not> isInitialized module_loaded \<and>
   init3DRoom \<lparr>clientWidth = 400, clientHeight = 300\<rparr> (init3DRoom container_800_600 module_loaded)
     = init3DRoom container_800_600 module_loaded \<and>
   length (the (map_option children
     (scene (init3DRoom \<lparr>clientWidth = 400, clientHeight = 300\<rparr>
        (init3DRoom container_800_600 module_loaded))))) = 14 \<and>
   appended (init3DRoom \<lparr>clientWidth = 400, clientHeight = 300\<rparr>
        (init3DRoom container_800_600 module_loaded)) = [container_800_600] \<and>
   resizeListeners (init3DRoom \<lparr>clientWidth = 400, clientHeight = 300\<rparr>
        (init3DRoom container_800_600 module_loaded)) = 1"
proof -
  have fresh: "\<not> isInitialized module_loaded"
    and start: "appended module_loaded = []" "resizeListeners module_loaded = 0"
    by (simp_all add: module_loaded_def)
  show ?thesis
    using init_twice [of "\<lparr>clientWidth = 400, clientHeight = 300\<rparr>" container_800_600
        module_loaded] fresh start
    by auto
qed

end
